theory Spec2Isabelle
  imports Complex_Main
begin

section \<open>Values of the metrics log\<close>

text \<open>
  \<^verbatim>\<open>benchmark_analyzer.py\<close> keeps whatever \<^verbatim>\<open>json.loads\<close> returns for a line, so a
  "record" is an arbitrary decoded JSON value. Python integers are unbounded (\<open>int\<close>).
  A Python float is modelled by its exact rational value and arithmetic on floats is
  exact: rounding, negative zero, NaN and the infinity that a sum of floats reaches on
  overflow are outside the model. When arithmetic raises is modelled: the conversion of
  an integer beyond the float range raises \<^verbatim>\<open>OverflowError\<close>. An object is an
  association list in insertion order with distinct keys; a lookup takes the binding of
  the key. Characters are the code points below 256.
\<close>

datatype json =
    JNull
  | JBool bool
  | JInt int
  | JFloat rat
  | JStr string
  | JList "json list"
  | JDict "(string \<times> json) list"

text \<open>The exceptions the three functions can raise.\<close>

datatype error =
  AttributeError | TypeError | ValueError | ZeroDivisionError | OverflowError

text \<open>The results of Python arithmetic on numbers: an \<^verbatim>\<open>int\<close> or a \<^verbatim>\<open>float\<close>.\<close>

datatype pynum = PInt int | PFloat rat

fun num_val :: "pynum \<Rightarrow> rat" where
  "num_val (PInt i) = of_int i"
| "num_val (PFloat q) = q"

text \<open>A JSON value read as a Python number; \<^verbatim>\<open>bool\<close> is a subclass of \<^verbatim>\<open>int\<close>.\<close>

fun as_num :: "json \<Rightarrow> pynum option" where
  "as_num (JBool b) = Some (PInt (if b then 1 else 0))"
| "as_num (JInt i) = Some (PInt i)"
| "as_num (JFloat q) = Some (PFloat q)"
| "as_num _ = None"

subsection \<open>Python's operators on decoded values\<close>

text \<open>The largest binary64 value is \<open>2 ^ 1024 - 2 ^ 971\<close>. A number of magnitude
  \<open>2 ^ 1024 - 2 ^ 970\<close> or more rounds beyond it: the conversion of such an integer to
  a float, and a division of integers with such a quotient, raise \<^verbatim>\<open>OverflowError\<close>.\<close>

definition float_limit :: int where
  "float_limit = 2 ^ 1024 - 2 ^ 970"

definition to_float :: "int \<Rightarrow> error + rat" where
  "to_float i = (if float_limit \<le> \<bar>i\<bar> then Inl OverflowError else Inr (of_int i))"

text \<open>\<^verbatim>\<open>acc + v\<close> where \<^verbatim>\<open>acc\<close> is a number, as in \<^verbatim>\<open>sum\<close>, whose accumulator starts at
  the integer 0: two integers give an integer; with a float on one side the integer on
  the other side is converted and the result is a float; anything that is not a number
  raises \<^verbatim>\<open>TypeError\<close>.\<close>

fun py_add :: "pynum \<Rightarrow> json \<Rightarrow> error + pynum" where
  "py_add acc v =
     (case as_num v of
        None \<Rightarrow> Inl TypeError
      | Some (PInt j) \<Rightarrow>
          (case acc of
             PInt i \<Rightarrow> Inr (PInt (i + j))
           | PFloat q \<Rightarrow>
               (case to_float j of Inl e \<Rightarrow> Inl e | Inr r \<Rightarrow> Inr (PFloat (q + r))))
      | Some (PFloat r) \<Rightarrow>
          (case acc of
             PInt i \<Rightarrow>
               (case to_float i of Inl e \<Rightarrow> Inl e | Inr q \<Rightarrow> Inr (PFloat (q + r)))
           | PFloat q \<Rightarrow> Inr (PFloat (q + r))))"

text \<open>\<^verbatim>\<open>x / n\<close> for a number and a count: true division, always a float. A quotient of
  integers beyond the float range raises \<^verbatim>\<open>OverflowError\<close>; the count is the length of
  a list, which converts to a float.\<close>

definition py_truediv :: "pynum \<Rightarrow> nat \<Rightarrow> error + pynum" where
  "py_truediv x n =
     (if n = 0 then Inl ZeroDivisionError
      else
        (case x of
           PInt i \<Rightarrow>
             (if of_int float_limit \<le> \<bar>of_int i / of_nat n :: rat\<bar> then Inl OverflowError
              else Inr (PFloat (of_int i / of_nat n)))
         | PFloat q \<Rightarrow> Inr (PFloat (q / of_nat n))))"

text \<open>\<^verbatim>\<open>a == b\<close>: numbers compare by value across \<^verbatim>\<open>bool\<close>, \<^verbatim>\<open>int\<close> and \<^verbatim>\<open>float\<close>,
  lists element by element, objects key by key; values of different kinds are unequal.\<close>

fun py_eq :: "json \<Rightarrow> json \<Rightarrow> bool"
  and py_eq_list :: "json list \<Rightarrow> json list \<Rightarrow> bool"
  and py_eq_items :: "(string \<times> json) list \<Rightarrow> (string \<times> json) list \<Rightarrow> bool" where
  "py_eq JNull JNull = True"
| "py_eq (JStr s) (JStr t) = (s = t)"
| "py_eq (JList xs) (JList ys) = py_eq_list xs ys"
| "py_eq (JDict a) (JDict b) = (length a = length b \<and> py_eq_items a b)"
| "py_eq a b =
     (case (as_num a, as_num b) of
        (Some x, Some y) \<Rightarrow> num_val x = num_val y
      | _ \<Rightarrow> False)"
| "py_eq_list [] ys = (ys = [])"
| "py_eq_list (x # xs) [] = False"
| "py_eq_list (x # xs) (y # ys) = (py_eq x y \<and> py_eq_list xs ys)"
| "py_eq_items [] b = True"
| "py_eq_items ((k, v) # a) b =
     (case map_of b k of None \<Rightarrow> False | Some w \<Rightarrow> py_eq v w \<and> py_eq_items a b)"

text \<open>\<^verbatim>\<open>s > t\<close> on strings: lexicographic by code point.\<close>

fun str_gt :: "string \<Rightarrow> string \<Rightarrow> bool" where
  "str_gt [] t = False"
| "str_gt (c # cs) [] = True"
| "str_gt (c # cs) (d # ds) =
     (if c = d then str_gt cs ds else (of_char d :: nat) < of_char c)"

text \<open>\<^verbatim>\<open>a > b\<close>: defined between two numbers, two strings and two lists (at the first
  pair of unequal elements, else by length); every other pair raises \<^verbatim>\<open>TypeError\<close>.\<close>

fun py_gt :: "json \<Rightarrow> json \<Rightarrow> error + bool"
  and py_gt_list :: "json list \<Rightarrow> json list \<Rightarrow> error + bool" where
  "py_gt (JStr s) (JStr t) = Inr (str_gt s t)"
| "py_gt (JList xs) (JList ys) = py_gt_list xs ys"
| "py_gt a b =
     (case (as_num a, as_num b) of
        (Some x, Some y) \<Rightarrow> Inr (num_val y < num_val x)
      | _ \<Rightarrow> Inl TypeError)"
| "py_gt_list [] ys = Inr False"
| "py_gt_list (x # xs) [] = Inr True"
| "py_gt_list (x # xs) (y # ys) =
     (if py_eq x y then py_gt_list xs ys else py_gt x y)"

section \<open>Aggregation: \<^verbatim>\<open>calculate_stats\<close>\<close>

text \<open>\<^verbatim>\<open>m.get(key, default)\<close>: only an object has the method, so any other decoded value
  raises \<^verbatim>\<open>AttributeError\<close>; the default replaces a missing key, never a present value.\<close>

fun dict_get :: "json \<Rightarrow> string \<Rightarrow> json \<Rightarrow> error + json" where
  "dict_get (JDict kvs) k d = Inr (case map_of kvs k of None \<Rightarrow> d | Some v \<Rightarrow> v)"
| "dict_get m k d = Inl AttributeError"

text \<open>\<^verbatim>\<open>sum(m.get(key, 0) for m in metrics)\<close>: the generator is consumed one record at a
  time, each value added to the accumulator before the next record is read.\<close>

fun py_sum :: "string \<Rightarrow> json list \<Rightarrow> pynum \<Rightarrow> error + pynum" where
  "py_sum k [] acc = Inr acc"
| "py_sum k (m # ms) acc =
     (case dict_get m k (JInt 0) of
        Inl e \<Rightarrow> Inl e
      | Inr v \<Rightarrow> (case py_add acc v of Inl e \<Rightarrow> Inl e | Inr acc' \<Rightarrow> py_sum k ms acc'))"

text \<open>\<^verbatim>\<open>max(m.get(key, 0) for m in metrics)\<close>: the first value is the candidate, each later
  value replaces it when \<^verbatim>\<open>value > candidate\<close>; an empty sequence raises
  \<^verbatim>\<open>ValueError\<close>.\<close>

fun max_loop :: "string \<Rightarrow> json list \<Rightarrow> json \<Rightarrow> error + json" where
  "max_loop k [] cur = Inr cur"
| "max_loop k (m # ms) cur =
     (case dict_get m k (JInt 0) of
        Inl e \<Rightarrow> Inl e
      | Inr v \<Rightarrow>
          (case py_gt v cur of
             Inl e \<Rightarrow> Inl e
           | Inr b \<Rightarrow> max_loop k ms (if b then v else cur)))"

fun py_max :: "string \<Rightarrow> json list \<Rightarrow> error + json" where
  "py_max k [] = Inl ValueError"
| "py_max k (m # ms) =
     (case dict_get m k (JInt 0) of Inl e \<Rightarrow> Inl e | Inr v \<Rightarrow> max_loop k ms v)"

subsection \<open>Histograms\<close>

text \<open>The \<^verbatim>\<open>tools\<close> and \<^verbatim>\<open>models\<close> dictionaries: keys in first-insertion order with their
  counts. A key is found by \<^verbatim>\<open>==\<close>; a list or an object is unhashable and raises
  \<^verbatim>\<open>TypeError\<close>.\<close>

type_synonym histogram = "(json \<times> nat) list"

fun hashable :: "json \<Rightarrow> bool" where
  "hashable (JList xs) = False"
| "hashable (JDict kvs) = False"
| "hashable v = True"

fun hist_get :: "histogram \<Rightarrow> json \<Rightarrow> nat \<Rightarrow> nat" where
  "hist_get [] t d = d"
| "hist_get ((k, c) # h) t d = (if py_eq k t then c else hist_get h t d)"

fun hist_set :: "histogram \<Rightarrow> json \<Rightarrow> nat \<Rightarrow> histogram" where
  "hist_set [] t c = [(t, c)]"
| "hist_set ((k, c') # h) t c =
     (if py_eq k t then (k, c) # h else (k, c') # hist_set h t c)"

text \<open>\<^verbatim>\<open>d[t] = d.get(t, 0) + 1\<close>\<close>

definition hist_incr :: "histogram \<Rightarrow> json \<Rightarrow> error + histogram" where
  "hist_incr h t =
     (if hashable t then Inr (hist_set h t (hist_get h t 0 + 1)) else Inl TypeError)"

text \<open>The loop of lines 42 to 46, threading both dictionaries.\<close>

fun count_loop :: "json list \<Rightarrow> histogram \<Rightarrow> histogram \<Rightarrow> error + (histogram \<times> histogram)" where
  "count_loop [] tools models = Inr (tools, models)"
| "count_loop (m # ms) tools models =
     (case dict_get m ''tool'' (JStr ''unknown'') of
        Inl e \<Rightarrow> Inl e
      | Inr t \<Rightarrow>
          (case hist_incr tools t of
             Inl e \<Rightarrow> Inl e
           | Inr tools' \<Rightarrow>
               (case dict_get m ''model'' (JStr ''unknown'') of
                  Inl e \<Rightarrow> Inl e
                | Inr mdl \<Rightarrow>
                    (case hist_incr models mdl of
                       Inl e \<Rightarrow> Inl e
                     | Inr models' \<Rightarrow> count_loop ms tools' models'))))"

subsection \<open>The summary\<close>

record summary =
  total_iterations :: nat
  total_latency :: pynum
  total_tokens :: pynum
  avg_latency :: pynum
  avg_tokens :: pynum
  max_lazy :: json
  tools :: histogram
  models :: histogram

text \<open>\<^verbatim>\<open>total / n if n > 0 else 0\<close>\<close>

definition average :: "pynum \<Rightarrow> nat \<Rightarrow> error + pynum" where
  "average x n = (if 0 < n then py_truediv x n else Inr (PInt 0))"

definition calculate_stats :: "json list \<Rightarrow> error + summary option" where
  "calculate_stats metrics =
     (if metrics = [] then Inr None
      else
        (case py_sum ''latency'' metrics (PInt 0) of Inl e \<Rightarrow> Inl e | Inr lat \<Rightarrow>
        (case py_sum ''tokens'' metrics (PInt 0) of Inl e \<Rightarrow> Inl e | Inr tok \<Rightarrow>
        (case average lat (length metrics) of Inl e \<Rightarrow> Inl e | Inr alat \<Rightarrow>
        (case average tok (length metrics) of Inl e \<Rightarrow> Inl e | Inr atok \<Rightarrow>
        (case py_max ''lazy_streak'' metrics of Inl e \<Rightarrow> Inl e | Inr ml \<Rightarrow>
        (case count_loop metrics [] [] of Inl e \<Rightarrow> Inl e | Inr (ts, mds) \<Rightarrow>
          Inr (Some \<lparr>total_iterations = length metrics,
                     total_latency = lat, total_tokens = tok,
                     avg_latency = alat, avg_tokens = atok, max_lazy = ml,
                     tools = ts, models = mds\<rparr>))))))))"

section \<open>The environment: files and standard output\<close>

text \<open>The file system maps a path to the text of the file there; \<^verbatim>\<open>os.path.exists\<close> is
  definedness, opening an existing path for reading and any path for writing succeeds.
  Standard output is the list of the strings printed, one per \<^verbatim>\<open>print\<close> call;
  printing and writing text succeed.\<close>

record world =
  fs :: "string \<Rightarrow> string option"
  stdout :: "string list"

definition print :: "string \<Rightarrow> world \<Rightarrow> world" where
  "print s w = w\<lparr>stdout := stdout w @ [s]\<rparr>"

text \<open>\<^verbatim>\<open>with open(path, 'w') as f: f.write(text)\<close>: the file is created or truncated.\<close>

definition write_file :: "string \<Rightarrow> string \<Rightarrow> world \<Rightarrow> world" where
  "write_file path text w = w\<lparr>fs := (fs w)(path \<mapsto> text)\<rparr>"

text \<open>Reading in text mode translates \<^verbatim>\<open>\r\n\<close> and \<^verbatim>\<open>\r\<close> to \<^verbatim>\<open>\n\<close>; iterating the file
  yields the lines with their terminator.\<close>

fun universal_newlines :: "string \<Rightarrow> string" where
  "universal_newlines [] = []"
| "universal_newlines (c # cs) =
     (if c = CHR 0x0D then
        (case cs of
           [] \<Rightarrow> [CHR 0x0A]
         | d # ds \<Rightarrow> if d = CHR 0x0A then CHR 0x0A # universal_newlines ds
                    else CHR 0x0A # universal_newlines cs)
      else c # universal_newlines cs)"

fun split_lines :: "string \<Rightarrow> string \<Rightarrow> string list" where
  "split_lines cur [] = (if cur = [] then [] else [cur])"
| "split_lines cur (c # cs) =
     (if c = CHR 0x0A then (cur @ [c]) # split_lines [] cs else split_lines (cur @ [c]) cs)"

definition file_lines :: "string \<Rightarrow> string list" where
  "file_lines text = split_lines [] (universal_newlines text)"

text \<open>\<^verbatim>\<open>str.strip()\<close> removes the leading and trailing whitespace characters.\<close>

definition is_space :: "char \<Rightarrow> bool" where
  "is_space c =
     (let n = (of_char c :: nat)
      in (9 \<le> n \<and> n \<le> 13) \<or> (28 \<le> n \<and> n \<le> 32) \<or> n = 133 \<or> n = 160)"

definition strip :: "string \<Rightarrow> string" where
  "strip s = rev (dropWhile is_space (rev (dropWhile is_space s)))"

section \<open>Parsing: \<^verbatim>\<open>parse_metrics\<close>\<close>

text \<open>\<^verbatim>\<open>json.loads\<close> belongs to the standard library and is a parameter \<open>loads\<close> here:
  \<open>None\<close> is \<^verbatim>\<open>JSONDecodeError\<close>, \<open>Some v\<close> the decoded value.\<close>

fun parse_loop :: "(string \<Rightarrow> json option) \<Rightarrow> string list \<Rightarrow> json list \<Rightarrow> json list" where
  "parse_loop loads [] metrics = metrics"
| "parse_loop loads (l # rest) metrics =
     (let line = strip l in
      if line = [] then parse_loop loads rest metrics
      else
        (case loads line of
           Some v \<Rightarrow> parse_loop loads rest (metrics @ [v])
         | None \<Rightarrow> parse_loop loads rest metrics))"

definition parse_metrics ::
    "(string \<Rightarrow> json option) \<Rightarrow> string \<Rightarrow> world \<Rightarrow> json list \<times> world" where
  "parse_metrics loads file_path w =
     (case fs w file_path of
        None \<Rightarrow> ([], print (''Error: Metrics file not found at '' @ file_path) w)
      | Some text \<Rightarrow> (parse_loop loads (file_lines text) [], w))"

section \<open>Reporting: \<^verbatim>\<open>generate_report\<close>\<close>

subsection \<open>Formatting\<close>

definition digit_char :: "nat \<Rightarrow> char" where
  "digit_char d = ''0123456789'' ! d"

function show_nat :: "nat \<Rightarrow> string" where
  "show_nat n = (if n < 10 then [digit_char n] else show_nat (n div 10) @ [digit_char (n mod 10)])"
  by pat_completeness auto
termination
  by (relation "measure id") auto

declare show_nat.simps [simp del]

definition show_int :: "int \<Rightarrow> string" where
  "show_int i = (if i < 0 then CHR ''-'' # show_nat (nat (- i)) else show_nat (nat i))"

text \<open>What the program takes from the interpreter when it renders values: the text of
  a float, a list or an object (\<^verbatim>\<open>repr\<close>, which can raise), and
  \<^verbatim>\<open>sys.get_int_max_str_digits()\<close>, the largest number of digits of an integer that
  \<^verbatim>\<open>str\<close> converts (4300 by default, 0 for no limit).\<close>

record interpreter =
  repr_other :: "json \<Rightarrow> error + string"
  max_str_digits :: nat

text \<open>Sequencing: the first exception ends the evaluation.\<close>

definition and_then :: "error + 'a \<Rightarrow> ('a \<Rightarrow> error + 'b) \<Rightarrow> error + 'b" where
  "and_then r f = (case r of Inl e \<Rightarrow> Inl e | Inr x \<Rightarrow> f x)"

fun map_result :: "('a \<Rightarrow> error + 'b) \<Rightarrow> 'a list \<Rightarrow> error + 'b list" where
  "map_result f [] = Inr []"
| "map_result f (x # xs) =
     and_then (f x) (\<lambda>y. and_then (map_result f xs) (\<lambda>ys. Inr (y # ys)))"

text \<open>\<^verbatim>\<open>str(i)\<close> for an integer: \<^verbatim>\<open>ValueError\<close> when it has more digits than the limit.\<close>

definition str_int :: "interpreter \<Rightarrow> int \<Rightarrow> error + string" where
  "str_int py i =
     (if max_str_digits py \<noteq> 0 \<and> max_str_digits py < length (show_nat (nat \<bar>i\<bar>))
      then Inl ValueError
      else Inr (show_int i))"

text \<open>\<^verbatim>\<open>str(v)\<close>, as \<^verbatim>\<open>f"{v}"\<close> renders it.\<close>

fun py_str :: "interpreter \<Rightarrow> json \<Rightarrow> error + string" where
  "py_str py JNull = Inr ''None''"
| "py_str py (JBool b) = Inr (if b then ''True'' else ''False'')"
| "py_str py (JInt i) = str_int py i"
| "py_str py (JStr s) = Inr s"
| "py_str py v = repr_other py v"

fun num_json :: "pynum \<Rightarrow> json" where
  "num_json (PInt i) = JInt i"
| "num_json (PFloat q) = JFloat q"

text \<open>\<^verbatim>\<open>f"{x:.df}"\<close>: an integer is first converted to a float, which can raise; the
  value, here the exact rational, is then written with \<open>d\<close> decimal places, ties
  rounded to the even digit.\<close>

definition round_half_even :: "rat \<Rightarrow> int" where
  "round_half_even x =
     (let f = \<lfloor>x\<rfloor>; r = x - of_int f
      in if r < 1 / 2 then f
         else if 1 / 2 < r then f + 1
         else if even f then f else f + 1)"

definition fixed_text :: "nat \<Rightarrow> rat \<Rightarrow> string" where
  "fixed_text d q =
     (let r = nat (round_half_even (\<bar>q\<bar> * 10 ^ d));
          frac = show_nat (r mod 10 ^ d)
      in (if q < 0 then [CHR ''-''] else []) @ show_nat (r div 10 ^ d) @
         (if d = 0 then []
          else CHR ''.'' # replicate (d - length frac) CHR ''0'' @ frac))"

fun format_fixed :: "nat \<Rightarrow> pynum \<Rightarrow> error + string" where
  "format_fixed d (PInt i) =
     (case to_float i of Inl e \<Rightarrow> Inl e | Inr q \<Rightarrow> Inr (fixed_text d q))"
| "format_fixed d (PFloat q) = Inr (fixed_text d q)"

text \<open>\<^verbatim>\<open>"\n".join(report)\<close>\<close>

fun join_lines :: "string list \<Rightarrow> string" where
  "join_lines [] = []"
| "join_lines [x] = x"
| "join_lines (x # y # ys) = x @ CHR 0x0A # join_lines (y # ys)"

subsection \<open>The document\<close>

text \<open>\<^verbatim>\<open>f"- {tool}: {count} iterations"\<close>\<close>

definition usage_line :: "interpreter \<Rightarrow> json \<times> nat \<Rightarrow> error + string" where
  "usage_line py kc =
     and_then (py_str py (fst kc)) (\<lambda>name.
     and_then (str_int py (int (snd kc))) (\<lambda>count.
       Inr (''- '' @ name @ '': '' @ count @ '' iterations'')))"

text \<open>The list \<^verbatim>\<open>report\<close> of lines 64 to 83, its values rendered in the order of the
  source; \<open>now\<close> is the text of \<^verbatim>\<open>datetime.now().strftime('%Y-%m-%d %H:%M:%S')\<close>.\<close>

definition report :: "interpreter \<Rightarrow> string \<Rightarrow> summary \<Rightarrow> error + string list" where
  "report py now stats =
     and_then (str_int py (int (total_iterations stats))) (\<lambda>iterations.
     and_then (format_fixed 2 (total_latency stats)) (\<lambda>latency.
     and_then (py_str py (num_json (total_tokens stats))) (\<lambda>tokens.
     and_then (format_fixed 2 (avg_latency stats)) (\<lambda>mean_latency.
     and_then (format_fixed 1 (avg_tokens stats)) (\<lambda>mean_tokens.
     and_then (py_str py (max_lazy stats)) (\<lambda>lazy.
     and_then (map_result (usage_line py) (tools stats)) (\<lambda>tool_lines.
     and_then (map_result (usage_line py) (models stats)) (\<lambda>model_lines.
       Inr ([''# Ralph Performance Benchmark Report'',
             CHR 0x0A # ''Generated on: '' @ now,
             CHR 0x0A # ''## Summary Metrics'',
             ''- **Total Iterations:** '' @ iterations,
             ''- **Total Execution Time:** '' @ latency @ ''s'',
             ''- **Total Tokens (Est):** '' @ tokens,
             ''- **Average Latency/Iteration:** '' @ mean_latency @ ''s'',
             ''- **Average Tokens/Iteration:** '' @ mean_tokens,
             ''- **Max Lazy Streak:** '' @ lazy,
             CHR 0x0A # ''## Utilization'',
             CHR 0x0A # ''### Tools Used'']
            @ tool_lines
            @ [CHR 0x0A # ''### Models Used'']
            @ model_lines)))))))))"

definition report_text :: "interpreter \<Rightarrow> string \<Rightarrow> summary \<Rightarrow> error + string" where
  "report_text py now stats = and_then (report py now stats) (\<lambda>r. Inr (join_lines r))"

text \<open>\<^verbatim>\<open>if output_file:\<close> is false for \<^verbatim>\<open>None\<close> and for the empty string.\<close>

fun truthy :: "string option \<Rightarrow> bool" where
  "truthy None = False"
| "truthy (Some p) = (p \<noteq> [])"

text \<open>The output step, lines 87 to 92.\<close>

definition emit :: "string \<Rightarrow> string option \<Rightarrow> world \<Rightarrow> world" where
  "emit text output_file w =
     (if truthy output_file then
        print (''Report generated at '' @ the output_file)
          (write_file (the output_file) text w)
      else print text w)"

definition generate_report ::
    "interpreter \<Rightarrow> string \<Rightarrow> summary option \<Rightarrow> string option \<Rightarrow> world \<Rightarrow> error + world" where
  "generate_report py now stats output_file w =
     (case stats of
        None \<Rightarrow> Inr (print ''No statistics to report.'' w)
      | Some st \<Rightarrow>
          and_then (report_text py now st) (\<lambda>text. Inr (emit text output_file w)))"

section \<open>The command line: \<^verbatim>\<open>main\<close>\<close>

text \<open>The parsed arguments \<^verbatim>\<open>args.input\<close> and \<^verbatim>\<open>args.output\<close>.\<close>

record args =
  input_arg :: string
  output_arg :: "string option"

text \<open>\<^verbatim>\<open>parse_args\<close>: \<^verbatim>\<open>--input\<close> has a default, \<^verbatim>\<open>--output\<close> has none.\<close>

definition parse_args :: "string option \<Rightarrow> string option \<Rightarrow> args" where
  "parse_args inp out =
     \<lparr>input_arg = (case inp of None \<Rightarrow> ''.ralph/state/metrics.json'' | Some p \<Rightarrow> p),
      output_arg = out\<rparr>"

definition main ::
    "(string \<Rightarrow> json option) \<Rightarrow> interpreter \<Rightarrow> string \<Rightarrow> args \<Rightarrow> world \<Rightarrow> error + world" where
  "main loads py now a w =
     (case parse_metrics loads (input_arg a) w of
        (metrics, w1) \<Rightarrow>
          (case calculate_stats metrics of
             Inl e \<Rightarrow> Inl e
           | Inr stats \<Rightarrow> generate_report py now stats (output_arg a) w1))"

section \<open>Notions used in the statements\<close>

text \<open>The sum of the counts stored in a histogram.\<close>

definition hist_total :: "histogram \<Rightarrow> nat" where
  "hist_total h = sum_list (map snd h)"

text \<open>A decoded value that is an object, and one that is a number.\<close>

fun is_object :: "json \<Rightarrow> bool" where
  "is_object (JDict kvs) = True"
| "is_object v = False"










text \<open>The stripped lines of a file that are not empty and that the decoder accepts, in
  file order.\<close>

definition decodable_lines :: "(string \<Rightarrow> json option) \<Rightarrow> string \<Rightarrow> string list" where
  "decodable_lines loads text =
     filter (\<lambda>l. l \<noteq> [] \<and> loads l \<noteq> None) (map strip (file_lines text))"

subsection \<open>Sample inputs\<close>

text \<open>The two records of the specification's example, the lines that encode them, and
  the summary the specification gives for them.\<close>

definition record_a :: json where
  "record_a = JDict [(''latency'', JFloat 1), (''tokens'', JInt 10),
                     (''tool'', JStr ''a''), (''model'', JStr ''x'')]"

definition record_b :: json where
  "record_b = JDict [(''latency'', JFloat 3), (''tokens'', JInt 20),
                     (''tool'', JStr ''b''), (''model'', JStr ''x'')]"

definition summary_ab :: summary where
  "summary_ab =
     \<lparr>total_iterations = 2, total_latency = PFloat 4, total_tokens = PInt 30,
      avg_latency = PFloat 2, avg_tokens = PFloat 15, max_lazy = JInt 0,
      tools = [(JStr ''a'', 1), (JStr ''b'', 1)], models = [(JStr ''x'', 2)]\<rparr>"

definition line_a :: string where
  \<open>line_a = ''{"latency":1.0,"tokens":10,"tool":"a","model":"x"}''\<close>

definition line_b :: string where
  \<open>line_b = ''{"latency":3.0,"tokens":20,"tool":"b","model":"x"}''\<close>



text \<open>A decoder that agrees with \<^verbatim>\<open>json.loads\<close> on the lines used below: the two
  records, the bare number \<^verbatim>\<open>5\<close>, and text that is not JSON.\<close>

definition sample_loads :: "string \<Rightarrow> json option" where
  "sample_loads s =
     (if s = line_a then Some record_a
      else if s = line_b then Some record_b
      else if s = ''5'' then Some (JInt 5)
      else None)"

text \<open>An interpreter with the default digit limit; a float, list or object is never
  printed in the samples.\<close>

definition sample_repr :: "json \<Rightarrow> error + string" where
  "sample_repr v = Inr ''?''"

definition sample_py :: interpreter where
  "sample_py = \<lparr>repr_other = sample_repr, max_str_digits = 4300\<rparr>"

definition sample_now :: string where
  "sample_now = ''2026-01-01 00:00:00''"



text \<open>Worlds: no file at all; a log with a malformed line before a valid one; a log
  whose only line is a bare number; a world where the report file already exists.\<close>

definition no_files :: "string \<Rightarrow> string option" where
  "no_files p = None"

definition empty_world :: world where
  "empty_world = \<lparr>fs = no_files, stdout = []\<rparr>"

definition log_text :: string where
  "log_text = ''not json'' @ [CHR 0x0A] @ line_a @ [CHR 0x0A]"

definition log_world :: world where
  "log_world = \<lparr>fs = no_files(''metrics.json'' \<mapsto> log_text), stdout = []\<rparr>"

definition number_text :: string where
  "number_text = ''5'' @ [CHR 0x0A]"

definition number_world :: world where
  "number_world = \<lparr>fs = no_files(''metrics.json'' \<mapsto> number_text), stdout = []\<rparr>"


section \<open>Properties of the aggregation\<close>

subsection \<open>Auxiliary facts\<close>

lemma stats_ab: "calculate_stats [record_a, record_b] = Inr (Some summary_ab)"
  by (simp add: calculate_stats_def average_def py_truediv_def hist_incr_def to_float_def
        float_limit_def record_a_def record_b_def summary_ab_def)

lemma calculate_stats_SomeD:
  assumes "calculate_stats ms = Inr (Some s)"
  shows "ms \<noteq> []"
    and "total_iterations s = length ms"
    and "py_sum ''latency'' ms (PInt 0) = Inr (total_latency s)"
    and "py_sum ''tokens'' ms (PInt 0) = Inr (total_tokens s)"
    and "average (total_latency s) (length ms) = Inr (avg_latency s)"
    and "average (total_tokens s) (length ms) = Inr (avg_tokens s)"
    and "py_max ''lazy_streak'' ms = Inr (max_lazy s)"
    and "count_loop ms [] [] = Inr (tools s, models s)"
  using assms by (auto simp: calculate_stats_def split: if_splits sum.splits)

lemma calculate_stats_None_iff: "calculate_stats ms = Inr None \<longleftrightarrow> ms = []"
  by (auto simp: calculate_stats_def split: sum.splits)

lemma average_pos: "0 < n \<Longrightarrow> average x n = py_truediv x n"
  by (simp add: average_def)

lemma py_truediv_no_zdiv: "0 < n \<Longrightarrow> py_truediv x n \<noteq> Inl ZeroDivisionError"
  by (simp add: py_truediv_def split: pynum.splits)

text \<open>Each update of a histogram adds one to the sum of its counts, whether the key is
  new or already there.\<close>

lemma hist_set_total:
  "hist_total (hist_set h t (Suc (hist_get h t 0))) = Suc (hist_total h)"
  by (induction h) (auto simp: hist_total_def)

lemma hist_incr_total:
  "hist_incr h t = Inr h' \<Longrightarrow> hist_total h' = Suc (hist_total h)"
  by (auto simp: hist_incr_def hist_set_total split: if_splits)

lemma count_loop_total:
  "count_loop ms ts mds = Inr (ts', mds') \<Longrightarrow>
     hist_total ts' = hist_total ts + length ms \<and> hist_total mds' = hist_total mds + length ms"
proof (induction ms arbitrary: ts mds)
  case Nil
  then show ?case by simp
next
  case (Cons m ms)
  from Cons.prems obtain t ts1 mdl mds1 where
    t: "hist_incr ts t = Inr ts1" and m: "hist_incr mds mdl = Inr mds1"
    and rest: "count_loop ms ts1 mds1 = Inr (ts', mds')"
    by (auto split: sum.splits)
  from Cons.IH [OF rest] hist_incr_total [OF t] hist_incr_total [OF m]
  show ?case by simp
qed

text \<open>No step of the aggregation raises \<^verbatim>\<open>ZeroDivisionError\<close>.\<close>

lemma dict_get_no_zdiv: "dict_get m k d \<noteq> Inl ZeroDivisionError"
  by (cases m) simp_all

lemma py_add_no_zdiv: "py_add acc v \<noteq> Inl ZeroDivisionError"
  by (simp add: to_float_def split: option.splits pynum.splits)

lemma py_sum_no_zdiv: "py_sum k ms acc \<noteq> Inl ZeroDivisionError"
  by (induction ms arbitrary: acc)
     (auto simp: dict_get_no_zdiv py_add_no_zdiv simp del: py_add.simps split: sum.splits)

lemma py_gt_no_zdiv:
  "py_gt a b \<noteq> Inl ZeroDivisionError" "py_gt_list xs ys \<noteq> Inl ZeroDivisionError"
  by (induction a b and xs ys rule: py_gt_py_gt_list.induct)
     (auto split: option.splits)

lemma max_loop_no_zdiv: "max_loop k ms cur \<noteq> Inl ZeroDivisionError"
  by (induction ms arbitrary: cur)
     (auto simp: dict_get_no_zdiv py_gt_no_zdiv split: sum.splits)

lemma py_max_no_zdiv: "py_max k ms \<noteq> Inl ZeroDivisionError"
  by (cases ms) (auto simp: dict_get_no_zdiv max_loop_no_zdiv split: sum.splits)

lemma hist_incr_no_zdiv: "hist_incr h t \<noteq> Inl ZeroDivisionError"
  by (simp add: hist_incr_def)

lemma count_loop_no_zdiv: "count_loop ms ts mds \<noteq> Inl ZeroDivisionError"
  by (induction ms arbitrary: ts mds)
     (auto simp: dict_get_no_zdiv hist_incr_no_zdiv split: sum.splits)

lemma calculate_stats_no_zdiv: "calculate_stats ms \<noteq> Inl ZeroDivisionError"
proof (cases "ms = []")
  case True
  then show ?thesis by (simp add: calculate_stats_def)
next
  case False
  then have pos: "0 < length ms" by simp
  show ?thesis
    using False py_sum_no_zdiv [of "''latency''" ms "PInt 0"]
      py_sum_no_zdiv [of "''tokens''" ms "PInt 0"]
      py_max_no_zdiv [of "''lazy_streak''" ms] count_loop_no_zdiv [of ms "[]" "[]"]
      py_truediv_no_zdiv [OF pos]
    by (auto simp: calculate_stats_def average_pos [OF pos] split: sum.splits)
qed

subsection \<open>The worked example\<close>

text \<open>
  Claim C1. For the two records \<^verbatim>\<open>{"latency":1.0,"tokens":10,"tool":"a","model":"x"}\<close>
  and \<^verbatim>\<open>{"latency":3.0,"tokens":20,"tool":"b","model":"x"}\<close>, in that order, the
  aggregation returns a summary with 2 iterations, total latency 4.0, average latency
  2.0, 30 tokens in total, 15.0 on average, the tools histogram a:1, b:1 and the models
  histogram x:2 (and the maximum lazy streak 0, from the default).
\<close>

theorem calculate_stats_example:
  "calculate_stats
     [JDict [(''latency'', JFloat 1), (''tokens'', JInt 10),
             (''tool'', JStr ''a''), (''model'', JStr ''x'')],
      JDict [(''latency'', JFloat 3), (''tokens'', JInt 20),
             (''tool'', JStr ''b''), (''model'', JStr ''x'')]]
   = Inr (Some \<lparr>total_iterations = 2, total_latency = PFloat 4, total_tokens = PInt 30,
                 avg_latency = PFloat 2, avg_tokens = PFloat 15, max_lazy = JInt 0,
                 tools = [(JStr ''a'', 1), (JStr ''b'', 1)],
                 models = [(JStr ''x'', 2)]\<rparr>)"
  by (simp add: calculate_stats_def average_def py_truediv_def hist_incr_def to_float_def
        float_limit_def)

subsection \<open>Histogram counts\<close>

text \<open>
  Claim C2. For every non-empty record sequence, in the summary the aggregation
  returns, the counts of the tools histogram sum to \<^verbatim>\<open>total_iterations\<close>, and so do the
  counts of the models histogram.
\<close>

theorem histogram_counts_sum_to_total:
  assumes "metrics \<noteq> []" and "calculate_stats metrics = Inr (Some s)"
  shows "hist_total (tools s) = total_iterations s \<and>
         hist_total (models s) = total_iterations s"
  using count_loop_total [OF calculate_stats_SomeD(8) [OF assms(2)]]
    calculate_stats_SomeD(2) [OF assms(2)]
  by (simp add: hist_total_def)

theorem histogram_counts_sum_to_total_witness:
  "[record_a, record_b] \<noteq> [] \<and>
   calculate_stats [record_a, record_b] = Inr (Some summary_ab) \<and>
   hist_total (tools summary_ab) = total_iterations summary_ab \<and>
   hist_total (models summary_ab) = total_iterations summary_ab"
  using histogram_counts_sum_to_total [of "[record_a, record_b]" summary_ab] stats_ab
  by simp

subsection \<open>Absence and the averages\<close>

text \<open>
  Claim C10. The aggregation returns no summary exactly when the record sequence is
  empty. Whenever it returns a summary, \<^verbatim>\<open>total_iterations\<close> is the length of the
  sequence and at least 1, both averages are the results of the divisions (the
  fallback 0 is never taken), and no run raises \<^verbatim>\<open>ZeroDivisionError\<close>.
\<close>

theorem absent_iff_empty_and_divisions_safe:
  "(calculate_stats metrics = Inr None \<longleftrightarrow> metrics = []) \<and>
   (\<forall>s. calculate_stats metrics = Inr (Some s) \<longrightarrow>
      total_iterations s = length metrics \<and> 1 \<le> total_iterations s \<and>
      py_truediv (total_latency s) (total_iterations s) = Inr (avg_latency s) \<and>
      py_truediv (total_tokens s) (total_iterations s) = Inr (avg_tokens s)) \<and>
   calculate_stats metrics \<noteq> Inl ZeroDivisionError"
proof (intro conjI allI impI)
  show "calculate_stats metrics = Inr None \<longleftrightarrow> metrics = []"
    by (rule calculate_stats_None_iff)
  show "calculate_stats metrics \<noteq> Inl ZeroDivisionError"
    by (rule calculate_stats_no_zdiv)
next
  fix s assume s: "calculate_stats metrics = Inr (Some s)"
  note d = calculate_stats_SomeD [OF s]
  from d(1) have pos: "0 < length metrics" by simp
  show "total_iterations s = length metrics" by (rule d(2))
  show "1 \<le> total_iterations s" using d(1) d(2) by (cases metrics) simp_all
  show "py_truediv (total_latency s) (total_iterations s) = Inr (avg_latency s)"
    using d(5) average_pos [OF pos] d(2) by simp
  show "py_truediv (total_tokens s) (total_iterations s) = Inr (avg_tokens s)"
    using d(6) average_pos [OF pos] d(2) by simp
qed

theorem absent_iff_empty_and_divisions_safe_witness:
  "calculate_stats [record_a, record_b] = Inr (Some summary_ab) \<and>
   total_iterations summary_ab = length [record_a, record_b] \<and>
   1 \<le> total_iterations summary_ab \<and>
   py_truediv (total_latency summary_ab) (total_iterations summary_ab)
     = Inr (avg_latency summary_ab) \<and>
   py_truediv (total_tokens summary_ab) (total_iterations summary_ab)
     = Inr (avg_tokens summary_ab)"
  using absent_iff_empty_and_divisions_safe [of "[record_a, record_b]"] stats_ab
  by blast

subsection \<open>Field access, defaults and wrong types\<close>






















section \<open>Properties of the parser\<close>

subsection \<open>Auxiliary facts\<close>

text \<open>The loop appends, to what it has collected, the decoded values of the lines it
  keeps.\<close>

lemma parse_loop_eq:
  "parse_loop loads ls acc =
     acc @ map (the \<circ> loads) (filter (\<lambda>l. l \<noteq> [] \<and> loads l \<noteq> None) (map strip ls))"
  by (induction ls arbitrary: acc) (auto simp: Let_def split: option.splits)

lemma parse_metrics_existing:
  "fs w p = Some text \<Longrightarrow>
     parse_metrics loads p w = (map (the \<circ> loads) (decodable_lines loads text), w)"
  by (simp add: parse_metrics_def parse_loop_eq decodable_lines_def)

lemma parse_metrics_missing:
  "fs w p = None \<Longrightarrow>
     parse_metrics loads p w =
       ([], w\<lparr>stdout := stdout w @ [''Error: Metrics file not found at '' @ p]\<rparr>)"
  by (simp add: parse_metrics_def print_def)

lemma log_lines: "decodable_lines sample_loads log_text = [line_a]"
  by (simp add: log_text_def decodable_lines_def file_lines_def strip_def is_space_def
        sample_loads_def line_a_def line_b_def)

lemma stats_a:
  "calculate_stats [record_a] =
     Inr (Some \<lparr>total_iterations = 1, total_latency = PFloat 1, total_tokens = PInt 10,
                 avg_latency = PFloat 1, avg_tokens = PFloat 10, max_lazy = JInt 0,
                 tools = [(JStr ''a'', 1)], models = [(JStr ''x'', 1)]\<rparr>)"
  by (simp add: calculate_stats_def average_def py_truediv_def hist_incr_def to_float_def
        float_limit_def record_a_def)

subsection \<open>What a record is\<close>

text \<open>
  Claim C4, as stated: every element of the parsed sequence is an object, a line that
  decodes to something else is left out. The parser keeps whatever the decoder returns:
  the line \<^verbatim>\<open>5\<close> becomes the element 5.
\<close>

theorem bare_number_is_kept:
  "fst (parse_metrics sample_loads ''metrics.json'' number_world) = [JInt 5] \<and>
   \<not> is_object (JInt 5)"
  by (simp add: parse_metrics_def number_world_def number_text_def file_lines_def strip_def
        is_space_def sample_loads_def line_a_def line_b_def)

text \<open>
  Claim C4, amended. The elements of the parsed sequence are exactly the values decoded
  from the lines of the file that are not empty once stripped, of whatever JSON type: a
  line that decodes to a number, a string or an array is an element like any other.
\<close>

theorem parsed_elements_are_decoded_values:
  assumes "fs w file_path = Some text"
  shows "set (fst (parse_metrics loads file_path w)) =
           {v. \<exists>l \<in> set (file_lines text). strip l \<noteq> [] \<and> loads (strip l) = Some v}"
  using parse_metrics_existing [OF assms, of loads]
  by (force simp: decodable_lines_def image_iff)

theorem parsed_elements_are_decoded_values_witness:
  "fs number_world ''metrics.json'' = Some number_text \<and>
   JInt 5 \<in> set (fst (parse_metrics sample_loads ''metrics.json'' number_world))"
proof -
  have f: "fs number_world ''metrics.json'' = Some number_text"
    by (simp add: number_world_def)
  have "\<exists>l \<in> set (file_lines number_text).
          strip l \<noteq> [] \<and> sample_loads (strip l) = Some (JInt 5)"
    by (simp add: number_text_def file_lines_def strip_def is_space_def sample_loads_def
          line_a_def line_b_def)
  with parsed_elements_are_decoded_values [OF f, of sample_loads] f show ?thesis by blast
qed

subsection \<open>Skipped and kept lines\<close>

text \<open>
  Claim C5. For a file that exists, the parser skips every line that is empty once
  stripped and, without a message, every line the decoder rejects, and returns the
  decoded values of the other lines in file order; so a summary computed from the result
  has \<^verbatim>\<open>total_iterations\<close> equal to the number of decodable lines.
\<close>

theorem parse_keeps_decodable_lines_in_order:
  assumes "fs w file_path = Some text"
  shows "parse_metrics loads file_path w =
           (map (the \<circ> loads) (decodable_lines loads text), w) \<and>
         (\<forall>s. calculate_stats (fst (parse_metrics loads file_path w)) = Inr (Some s) \<longrightarrow>
            total_iterations s = length (decodable_lines loads text))"
  using parse_metrics_existing [OF assms, of loads]
  by (auto dest: calculate_stats_SomeD(2))

text \<open>The example of the specification: a malformed line, then a valid one.\<close>

theorem parse_keeps_decodable_lines_in_order_witness:
  "fs log_world ''metrics.json'' = Some log_text \<and>
   parse_metrics sample_loads ''metrics.json'' log_world = ([record_a], log_world) \<and>
   (\<exists>s. calculate_stats (fst (parse_metrics sample_loads ''metrics.json'' log_world))
           = Inr (Some s) \<and>
        total_iterations s = 1)"
proof -
  have f: "fs log_world ''metrics.json'' = Some log_text"
    by (simp add: log_world_def)
  from parse_keeps_decodable_lines_in_order [OF f, of sample_loads]
  have p: "parse_metrics sample_loads ''metrics.json'' log_world = ([record_a], log_world)"
    and t: "\<And>s. calculate_stats (fst (parse_metrics sample_loads ''metrics.json'' log_world))
                 = Inr (Some s) \<Longrightarrow> total_iterations s = 1"
    by (simp_all add: log_lines sample_loads_def)
  from p stats_a obtain s where
    s: "calculate_stats (fst (parse_metrics sample_loads ''metrics.json'' log_world))
          = Inr (Some s)"
    by simp
  from f p s t [OF s] show ?thesis by blast
qed

subsection \<open>A missing file\<close>

text \<open>
  Claim C7. For a path at which no file exists, the parser prints a diagnostic and
  returns the empty sequence, and the pipeline runs to completion on it: the aggregation
  returns no summary and the reporter prints that there is nothing to report.
\<close>

theorem missing_file_is_soft:
  assumes "fs w file_path = None"
  shows "parse_metrics loads file_path w =
           ([], w\<lparr>stdout := stdout w @ [''Error: Metrics file not found at '' @ file_path]\<rparr>) \<and>
         main loads py now \<lparr>input_arg = file_path, output_arg = output_file\<rparr> w =
           Inr (w\<lparr>stdout := stdout w @ [''Error: Metrics file not found at '' @ file_path,
                                         ''No statistics to report.'']\<rparr>)"
  using parse_metrics_missing [OF assms, of loads]
  by (simp add: main_def calculate_stats_def generate_report_def print_def)

theorem missing_file_is_soft_witness:
  "fs empty_world ''metrics.json'' = None \<and>
   parse_metrics sample_loads ''metrics.json'' empty_world =
     ([], \<lparr>fs = no_files, stdout = [''Error: Metrics file not found at metrics.json'']\<rparr>) \<and>
   main sample_loads sample_py sample_now
       \<lparr>input_arg = ''metrics.json'', output_arg = None\<rparr> empty_world =
     Inr \<lparr>fs = no_files,
          stdout = [''Error: Metrics file not found at metrics.json'',
                    ''No statistics to report.'']\<rparr>"
proof -
  have f: "fs empty_world ''metrics.json'' = None"
    by (simp add: empty_world_def no_files_def)
  from missing_file_is_soft [OF f, of sample_loads sample_py sample_now None] f
  show ?thesis by (simp add: empty_world_def)
qed

section \<open>Properties of the reporter\<close>

subsection \<open>Auxiliary facts\<close>






text \<open>The clock reading enters the list at its second element and nowhere else.\<close>

lemma report_clock:
  "report py t1 st =
     (case report py t2 st of
        Inl e \<Rightarrow> Inl e
      | Inr r \<Rightarrow>
          Inr (''# Ralph Performance Benchmark Report'' #
               (CHR 0x0A # ''Generated on: '' @ t1) # drop 2 r))"
  by (simp add: report_def and_then_def split: sum.splits)

lemma main_unfold:
  "main loads py t a w =
     (case calculate_stats (fst (parse_metrics loads (input_arg a) w)) of
        Inl e \<Rightarrow> Inl e
      | Inr None \<Rightarrow>
          Inr (print ''No statistics to report.'' (snd (parse_metrics loads (input_arg a) w)))
      | Inr (Some st) \<Rightarrow>
          (case report_text py t st of
             Inl e \<Rightarrow> Inl e
           | Inr text \<Rightarrow>
               Inr (emit text (output_arg a) (snd (parse_metrics loads (input_arg a) w)))))"
  by (simp add: main_def generate_report_def and_then_def
        split: prod.splits sum.splits option.splits)

subsection \<open>Nothing to report\<close>

text \<open>
  Claim C6. On the empty record sequence the aggregation returns no summary; given no
  summary, the reporter prints the single line "No statistics to report.", leaves the
  file system as it is, and raises nothing, whatever the output path.
\<close>

theorem empty_input_reports_nothing:
  "calculate_stats [] = Inr None \<and>
   generate_report py now None output_file w =
     Inr (w\<lparr>stdout := stdout w @ [''No statistics to report.'']\<rparr>)"
  by (simp add: calculate_stats_def generate_report_def print_def)

subsection \<open>The clock\<close>

text \<open>
  Claim C8. The aggregation depends on the record sequence alone. The report of a run
  with clock reading \<open>t1\<close> raises exactly when the report with any other clock reading
  \<open>t2\<close> raises, with the same exception; otherwise it is the title, the line
  "Generated on: \<open>t1\<close>", and a remainder that is the same for \<open>t2\<close>. The pipeline uses
  the clock for nothing but that text: parsing and aggregation do not see it, and the
  text is emitted at the same place.
\<close>

theorem report_depends_on_clock_only_in_timestamp:
  "report_text py t1 st =
     (case report py t2 st of
        Inl e \<Rightarrow> Inl e
      | Inr r \<Rightarrow>
          Inr (''# Ralph Performance Benchmark Report'' @ [CHR 0x0A, CHR 0x0A] @
               ''Generated on: '' @ t1 @ CHR 0x0A # join_lines (drop 2 r))) \<and>
   map_sum id (take 1) (report py t1 st) = map_sum id (take 1) (report py t2 st) \<and>
   map_sum id (drop 2) (report py t1 st) = map_sum id (drop 2) (report py t2 st) \<and>
   main loads py t1 a w =
     (case calculate_stats (fst (parse_metrics loads (input_arg a) w)) of
        Inl e \<Rightarrow> Inl e
      | Inr None \<Rightarrow>
          Inr (print ''No statistics to report.'' (snd (parse_metrics loads (input_arg a) w)))
      | Inr (Some st') \<Rightarrow>
          (case report_text py t1 st' of
             Inl e \<Rightarrow> Inl e
           | Inr text \<Rightarrow>
               Inr (emit text (output_arg a) (snd (parse_metrics loads (input_arg a) w)))))"
proof (intro conjI)
  show "report_text py t1 st =
     (case report py t2 st of
        Inl e \<Rightarrow> Inl e
      | Inr r \<Rightarrow>
          Inr (''# Ralph Performance Benchmark Report'' @ [CHR 0x0A, CHR 0x0A] @
               ''Generated on: '' @ t1 @ CHR 0x0A # join_lines (drop 2 r)))"
    by (simp add: report_text_def report_def and_then_def split: sum.splits)
  show "map_sum id (take 1) (report py t1 st) = map_sum id (take 1) (report py t2 st)"
    by (simp add: report_def and_then_def split: sum.splits)
  show "map_sum id (drop 2) (report py t1 st) = map_sum id (drop 2) (report py t2 st)"
    by (simp add: report_def and_then_def split: sum.splits)
  show "main loads py t1 a w =
     (case calculate_stats (fst (parse_metrics loads (input_arg a) w)) of
        Inl e \<Rightarrow> Inl e
      | Inr None \<Rightarrow>
          Inr (print ''No statistics to report.'' (snd (parse_metrics loads (input_arg a) w)))
      | Inr (Some st') \<Rightarrow>
          (case report_text py t1 st' of
             Inl e \<Rightarrow> Inl e
           | Inr text \<Rightarrow>
               Inr (emit text (output_arg a) (snd (parse_metrics loads (input_arg a) w)))))"
    by (rule main_unfold)
qed

subsection \<open>Where the report goes\<close>




end
